theory Spec2Isabelle
  imports Complex_Main "HOL-Library.AList" "HOL-Library.Sublist"
begin

section \<open>JavaScript values\<close>

text \<open>
  The values that flow through the connector. An object is its list of own properties in
  insertion order; an array is its elements together with the named own properties that
  have been added to it (none after \<open>JSON.parse\<close>). Numbers are never inspected by the
  code inside a record, they only pass through.
\<close>

datatype jsval =
    JUndefined
  | JNull
  | JBool bool
  | JNum real
  | JStr string
  | JArr "jsval list" "(string \<times> jsval) list"
  | JObj "(string \<times> jsval) list"

text \<open>The two exceptions the connector can let escape.\<close>

datatype exn = SyntaxError | TypeError

text \<open>The conversion to boolean that \<open>if (v)\<close> applies.\<close>

fun truthy :: "jsval \<Rightarrow> bool" where
  "truthy JUndefined = False"
| "truthy JNull = False"
| "truthy (JBool b) = b"
| "truthy (JNum x) = (x \<noteq> 0)"
| "truthy (JStr s) = (s \<noteq> [])"
| "truthy (JArr xs ps) = True"
| "truthy (JObj ps) = True"

text \<open>
  The property read \<open>v.k\<close>, for the names the connector reads (\<open>result\<close>, \<open>number\<close>,
  \<open>sys_id\<close>): none of them is an array index, \<open>length\<close> or a member of a built-in
  prototype, so the read finds an own property or yields \<open>undefined\<close>. Reading a property
  of \<open>undefined\<close> or \<open>null\<close> throws.
\<close>

fun get_field :: "jsval \<Rightarrow> string \<Rightarrow> exn + jsval" where
  "get_field JUndefined k = Inl TypeError"
| "get_field JNull k = Inl TypeError"
| "get_field (JObj ps) k = Inr (case map_of ps k of None \<Rightarrow> JUndefined | Some v \<Rightarrow> v)"
| "get_field (JArr xs ps) k = Inr (case map_of ps k of None \<Rightarrow> JUndefined | Some v \<Rightarrow> v)"
| "get_field (JBool b) k = Inr JUndefined"
| "get_field (JNum x) k = Inr JUndefined"
| "get_field (JStr s) k = Inr JUndefined"

text \<open>
  The assignment \<open>v.k = x\<close> in strict mode (a class body is strict code): an existing own
  property keeps its place, a new one is added last; creating a property on a primitive
  throws.
\<close>

fun set_field :: "jsval \<Rightarrow> string \<Rightarrow> jsval \<Rightarrow> exn + jsval" where
  "set_field (JObj ps) k x = Inr (JObj (AList.update k x ps))"
| "set_field (JArr xs ps) k x = Inr (JArr xs (AList.update k x ps))"
| "set_field v k x = Inl TypeError"

text \<open>\<open>delete v.k\<close>, for names that are not array indices or \<open>length\<close>.\<close>

fun delete_field :: "jsval \<Rightarrow> string \<Rightarrow> exn + jsval" where
  "delete_field (JObj ps) k = Inr (JObj (AList.delete k ps))"
| "delete_field (JArr xs ps) k = Inr (JArr xs (AList.delete k ps))"
| "delete_field JUndefined k = Inl TypeError"
| "delete_field JNull k = Inl TypeError"
| "delete_field v k = Inr v"

fun delete_fields :: "jsval \<Rightarrow> string list \<Rightarrow> exn + jsval" where
  "delete_fields v [] = Inr v"
| "delete_fields v (k # ks) =
     (case delete_field v k of Inl e \<Rightarrow> Inl e | Inr v' \<Rightarrow> delete_fields v' ks)"

text \<open>Decimal digits and the string of a natural number (array indices, status codes).\<close>

definition digit_char :: "nat \<Rightarrow> char" where
  "digit_char d = ''0123456789'' ! d"

function nat_to_string :: "nat \<Rightarrow> string" where
  "nat_to_string n =
     (if n < 10 then [digit_char n] else nat_to_string (n div 10) @ [digit_char (n mod 10)])"
  by pat_completeness auto
termination
  by (relation "measure (\<lambda>n. n)") auto

declare nat_to_string.simps [simp del]

text \<open>Whether a value has the own property \<open>k\<close> (\<open>hasOwnProperty\<close>).\<close>

fun has_own :: "jsval \<Rightarrow> string \<Rightarrow> bool" where
  "has_own (JObj ps) k = (k \<in> fst ` set ps)"
| "has_own (JArr xs ps) k =
     (k = ''length'' \<or> k \<in> set (map nat_to_string [0..<length xs]) \<or> k \<in> fst ` set ps)"
| "has_own (JStr s) k = (k = ''length'' \<or> k \<in> set (map nat_to_string [0..<length s]))"
| "has_own v k = False"

section \<open>The connector (connector.js)\<close>

record options =
  url :: string
  username :: string
  password :: string
  serviceNowTable :: string

text \<open>The connector object: its only field is \<open>this.options\<close>, set by the constructor.\<close>

record connector =
  options :: options

definition ServiceNowConnector :: "options \<Rightarrow> connector" where
  "ServiceNowConnector opts = \<lparr> options = opts \<rparr>"

text \<open>A transport error is an \<open>Error\<close> object (here: its message).\<close>

datatype js_error = Error string

text \<open>
  The response object of the HTTP client, with the two fields the connector reads:
  the status code, an integer, and the body text.
\<close>

record response =
  statusCode :: int
  body :: string

text \<open>
  An argument of a callback: a plain value, an \<open>Error\<close> object or a response object.
\<close>

datatype cb_arg = Val jsval | ErrorObj js_error | ResponseObj response

fun truthy_arg :: "cb_arg \<Rightarrow> bool" where
  "truthy_arg (Val v) = truthy v"
| "truthy_arg (ErrorObj e) = True"
| "truthy_arg (ResponseObj r) = True"

text \<open>The request options; \<open>http_method\<close> is the field \<open>method\<close>.\<close>

record request_options =
  http_method :: string
  auth_user :: string
  auth_pass :: string
  baseUrl :: string
  uri :: string

text \<open>
  What the code does to the outside: a line written to the global \<open>log\<close> object, an event
  emitted, the HTTP request issued, and the caller's callback invoked with its two
  arguments.
\<close>

datatype level = LDebug | LInfo | LWarn | LError

datatype effect =
    Log level string
  | Emit string jsval
  | Request request_options
  | Callback cb_arg cb_arg

text \<open>
  How a method that ends in \<open>callback(data, error)\<close> ends: the callback is invoked with
  these two arguments, or an exception leaves the method and the callback is not invoked.
\<close>

datatype outcome = Called cb_arg cb_arg | Threw exn

subsection \<open>constructUri\<close>

text \<open>
  \<open>query\<close> is \<open>None\<close> when the argument is omitted (the default \<open>null\<close>). The result is
  the URI, the connector after the call and the log lines written.
\<close>

definition constructUri :: "connector \<Rightarrow> string option \<Rightarrow> string \<times> connector \<times> effect list" where
  "constructUri this query =
     (let uri0 = ''/api/now/table/'' @ serviceNowTable (options this);
          uri1 = (case query of
                    None \<Rightarrow> uri0
                  | Some q \<Rightarrow> if truthy (JStr q) then uri0 @ ''?'' @ q else uri0)
      in (uri1, this, [Log LDebug (''URI: '' @ uri1)]))"

subsection \<open>isHibernating\<close>

text \<open>\<open>s.includes(sub)\<close> on strings.\<close>

fun js_includes :: "string \<Rightarrow> string \<Rightarrow> bool" where
  "js_includes [] sub = (sub = [])"
| "js_includes (c # cs) sub = (prefix sub (c # cs) \<or> js_includes cs sub)"

definition isHibernating :: "response \<Rightarrow> bool" where
  "isHibernating response \<longleftrightarrow>
     js_includes (body response) ''Instance Hibernating page''
     \<and> js_includes (body response) ''<html>''
     \<and> statusCode response = 200"

subsection \<open>validResponseRegex\<close>

text \<open>
  The status code is an integer. \<open>RegExp.prototype.test\<close> converts its argument to a
  string. For a safe integer, one of magnitude below \<open>2^53\<close>, that is its decimal digits,
  after a minus sign for a negative number. A larger number is printed from the shortest
  digits that identify the floating-point value, in exponent form from \<open>10^21\<close> on; that
  conversion is not part of this model, and the string of such a number is left
  unspecified: nothing is proved from it.
\<close>

definition safe_integer :: "int \<Rightarrow> bool" where
  "safe_integer i \<longleftrightarrow> - (2 ^ 53) < i \<and> i < 2 ^ 53"

definition number_to_string :: "int \<Rightarrow> string" where
  "number_to_string i =
     (if safe_integer i then
        (if i < 0 then CHR ''-'' # nat_to_string (nat (- i)) else nat_to_string (nat i))
      else undefined)"

definition is_digit :: "char \<Rightarrow> bool" where
  "is_digit c \<longleftrightarrow> c \<in> set ''0123456789''"

text \<open>\<open>/(2\d\d)/\<close> matched at the start of the string, then anywhere in it.\<close>

fun match_2dd_here :: "string \<Rightarrow> bool" where
  "match_2dd_here (a # b # c # rest) = (a = CHR ''2'' \<and> is_digit b \<and> is_digit c)"
| "match_2dd_here s = False"

fun validResponseRegex_test_string :: "string \<Rightarrow> bool" where
  "validResponseRegex_test_string [] = False"
| "validResponseRegex_test_string (c # cs) =
     (match_2dd_here (c # cs) \<or> validResponseRegex_test_string cs)"

definition validResponseRegex_test :: "int \<Rightarrow> bool" where
  "validResponseRegex_test code = validResponseRegex_test_string (number_to_string code)"

subsection \<open>processRequestResults\<close>

text \<open>The fields deleted from every record, in the order of the \<open>delete\<close> statements.\<close>

definition deleted_fields :: "string list" where
  "deleted_fields =
    [''number'', ''sys_id'', ''parent'', ''reason'', ''watch_list'', ''upon_reject'',
     ''sys_updated_on'', ''type'', ''approval_history'', ''test_plan'', ''cab_delegate'',
     ''requested_by_date'', ''state'', ''sys_created_by'', ''knowledge'', ''order'',
     ''phase'', ''cmdb_ci'', ''delivery_plan'', ''contract'', ''impact'', ''work_notes_list'',
     ''sys_domain_path'', ''cab_recommendation'', ''production_system'', ''review_date'',
     ''business_duration'', ''group_list'', ''requested_by'', ''change_plan'',
     ''approval_set'', ''implementation_plan'', ''approval_history'', ''test_plan'',
     ''correlation_display'', ''delivery_task'', ''additional_assignee_list'',
     ''outside_maintenance_schedule'', ''end_date'', ''short_description'',
     ''std_change_producer_version'', ''service_offering'', ''sys_class_name'', ''closed_by'',
     ''follow_up'', ''reassignment_count'', ''review_status'', ''assigned_to'',
     ''start_date'', ''sla_due'', ''comments_and_work_notes'', ''escalation'',
     ''upon_approval'', ''correlation_id'', ''made_sla'', ''backout_plan'',
     ''conflict_status'', ''sys_updated_by'', ''opened_by'', ''user_input'',
     ''sys_created_on'', ''on_hold_task'', ''sys_domain'', ''closed_at'', ''review_comments'',
     ''business_service'', ''time_worked'', ''expected_start'', ''opened_at'',
     ''phase_state'', ''cab_date'', ''work_notes'', ''close_code'', ''assignment_group'',
     ''on_hold_reason'', ''calendar_duration'', ''close_notes'', ''contact_type'',
     ''cab_required'', ''urgency'', ''scope'', ''company'', ''justification'',
     ''activity_due'', ''comments'', ''approval'', ''due_date'', ''sys_mod_count'',
     ''on_hold'', ''sys_tags'', ''conflict_last_run'', ''unauthorized'', ''location'',
     ''risk'', ''category'', ''risk_impact_analysis'']"

text \<open>
  The body of the arrow function given to \<open>forEach\<close>: two reads, two assignments and the
  deletions, on one element; the element after them, or the exception thrown.
\<close>

definition project_result :: "jsval \<Rightarrow> exn + jsval" where
  "project_result result =
     (case get_field result ''number'' of Inl e \<Rightarrow> Inl e | Inr n \<Rightarrow>
      case set_field result ''change_ticket_number'' n of Inl e \<Rightarrow> Inl e | Inr r1 \<Rightarrow>
      case get_field r1 ''sys_id'' of Inl e \<Rightarrow> Inl e | Inr s \<Rightarrow>
      case set_field r1 ''change_ticket_key'' s of Inl e \<Rightarrow> Inl e | Inr r2 \<Rightarrow>
      delete_fields r2 deleted_fields)"

text \<open>
  \<open>forEach\<close>: the function runs on the elements in order and the first exception ends the
  iteration. The source changes each element in place; here the list of the changed
  elements is returned.
\<close>

fun for_each :: "(jsval \<Rightarrow> exn + jsval) \<Rightarrow> jsval list \<Rightarrow> exn + jsval list" where
  "for_each f [] = Inr []"
| "for_each f (x # xs) =
     (case f x of Inl e \<Rightarrow> Inl e | Inr y \<Rightarrow>
      case for_each f xs of Inl e \<Rightarrow> Inl e | Inr ys \<Rightarrow> Inr (y # ys))"

text \<open>
  \<open>results.forEach(...)\<close>: only an array has the method (and no value of \<open>jsval\<close> is a
  function, so an own property \<open>forEach\<close> would not be callable). The array after the
  iteration is the value assigned to \<open>callbackData\<close>.
\<close>

fun results_forEach :: "jsval \<Rightarrow> exn + jsval" where
  "results_forEach (JArr xs ps) =
     (if map_of ps ''forEach'' \<noteq> None then Inl TypeError
      else case for_each project_result xs of Inl e \<Rightarrow> Inl e | Inr ys \<Rightarrow> Inr (JArr ys ps))"
| "results_forEach v = Inl TypeError"

text \<open>
  \<open>JSON_parse\<close> is the runtime's \<open>JSON.parse\<close>: the parsed value, or \<open>None\<close> when it throws
  a \<open>SyntaxError\<close>. \<open>error\<close> is \<open>None\<close> for \<open>null\<close> and \<open>Some e\<close> for an \<open>Error\<close> object,
  which is truthy, so that \<open>if (error)\<close> is the test for \<open>Some\<close>. \<open>response\<close> is \<open>None\<close> when
  the argument is \<open>undefined\<close>, as the HTTP client passes it with a transport error; reading
  \<open>response.body\<close> then throws. The \<open>body\<close> argument is never read. The result is the log
  lines written and how the call ends.
\<close>

definition processRequestResults ::
  "(string \<Rightarrow> jsval option) \<Rightarrow> js_error option \<Rightarrow> response option \<Rightarrow> string option
     \<Rightarrow> effect list \<times> outcome" where
  "processRequestResults JSON_parse error response body_arg =
     (case error of
        Some e \<Rightarrow> ([Log LError ''Error present.''], Called (Val JNull) (ErrorObj e))
      | None \<Rightarrow>
         (case response of
            None \<Rightarrow> ([], Threw TypeError)
          | Some r \<Rightarrow>
              if isHibernating r then
                ([Log LError ''Hibernating instance''],
                 Called (Val JNull) (Val (JStr ''Hibernating instance'')))
              else if \<not> validResponseRegex_test (statusCode r) then
                ([Log LError ''Bad response code.''], Called (Val JNull) (ResponseObj r))
              else if truthy (JStr (body r)) then
                (case JSON_parse (body r) of
                   None \<Rightarrow> ([], Threw SyntaxError)
                 | Some jsonBody \<Rightarrow>
                    (case get_field jsonBody ''result'' of
                       Inl e \<Rightarrow> ([], Threw e)
                     | Inr results \<Rightarrow>
                        (case results_forEach results of
                           Inl e \<Rightarrow> ([], Threw e)
                         | Inr results' \<Rightarrow> ([], Called (Val results') (Val JNull)))))
              else ([], Called (Val JNull) (Val JNull))))"

subsection \<open>sendRequest, get, post\<close>

text \<open>
  The call options are the connector's options with a method (and no \<open>query\<close> field, when
  they come from \<open>get\<close> or \<open>post\<close>). \<open>request\<close> is the HTTP client: the three arguments it
  gives its completion callback.
\<close>

record call_options =
  co_method :: string
  co_query :: "string option"

definition sendRequest ::
  "(request_options \<Rightarrow> js_error option \<times> response option \<times> string option)
     \<Rightarrow> (string \<Rightarrow> jsval option) \<Rightarrow> connector \<Rightarrow> call_options \<Rightarrow> effect list \<times> outcome" where
  "sendRequest request JSON_parse this callOptions =
     (let (u, this', log1) =
            (case co_query callOptions of
               Some q \<Rightarrow> if truthy (JStr q) then constructUri this (Some q)
                         else constructUri this None
             | None \<Rightarrow> constructUri this None);
          requestOptions = \<lparr> http_method = co_method callOptions,
                             auth_user = username (options this'),
                             auth_pass = password (options this'),
                             baseUrl = url (options this'),
                             uri = u \<rparr>;
          (error, response, body_arg) = request requestOptions;
          (log2, out) = processRequestResults JSON_parse error response body_arg
      in (log1 @ [Request requestOptions] @ log2, out))"

definition post ::
  "(request_options \<Rightarrow> js_error option \<times> response option \<times> string option)
     \<Rightarrow> (string \<Rightarrow> jsval option) \<Rightarrow> connector \<Rightarrow> effect list \<times> outcome" where
  "post request JSON_parse this =
     sendRequest request JSON_parse this \<lparr> co_method = ''POST'', co_query = None \<rparr>"

definition get ::
  "(request_options \<Rightarrow> js_error option \<times> response option \<times> string option)
     \<Rightarrow> (string \<Rightarrow> jsval option) \<Rightarrow> connector \<Rightarrow> effect list \<times> outcome" where
  "get request JSON_parse this =
     sendRequest request JSON_parse this \<lparr> co_method = ''GET'', co_query = None \<rparr>"

section \<open>The adapter (main.js)\<close>

text \<open>
  The adapter properties given to the constructor: \<open>url\<close>, \<open>auth.username\<close>,
  \<open>auth.password\<close> and \<open>serviceNowTable\<close>.
\<close>

record adapterProperties =
  ap_url :: string
  ap_auth_username :: string
  ap_auth_password :: string
  ap_serviceNowTable :: string

text \<open>The adapter object: \<open>this.id\<close>, \<open>this.props\<close> and \<open>this.connector\<close>.\<close>

record adapter =
  id :: string
  props :: adapterProperties
  adapter_connector :: connector

definition ServiceNowAdapter :: "string \<Rightarrow> adapterProperties \<Rightarrow> adapter" where
  "ServiceNowAdapter i adapterProperties =
     \<lparr> id = i,
       props = adapterProperties,
       adapter_connector =
         ServiceNowConnector
           \<lparr> url = ap_url adapterProperties,
             username = ap_auth_username adapterProperties,
             password = ap_auth_password adapterProperties,
             serviceNowTable = ap_serviceNowTable adapterProperties \<rparr> \<rparr>"

definition emitStatus :: "adapter \<Rightarrow> string \<Rightarrow> effect list" where
  "emitStatus this status = [Emit status (JObj [(''id'', JStr (id this))])]"

definition emitOffline :: "adapter \<Rightarrow> effect list" where
  "emitOffline this =
     emitStatus this ''OFFLINE'' @ [Log LWarn ''ServiceNow: Instance is unavailable.'']"

definition emitOnline :: "adapter \<Rightarrow> effect list" where
  "emitOnline this =
     emitStatus this ''ONLINE'' @ [Log LInfo ''ServiceNow: Instance is available.'']"

text \<open>\<open>getRecord\<close> and \<open>postRecord\<close> hand their callback to the connector.\<close>

definition getRecord ::
  "(request_options \<Rightarrow> js_error option \<times> response option \<times> string option)
     \<Rightarrow> (string \<Rightarrow> jsval option) \<Rightarrow> adapter \<Rightarrow> effect list \<times> outcome" where
  "getRecord request JSON_parse this = get request JSON_parse (adapter_connector this)"

definition postRecord ::
  "(request_options \<Rightarrow> js_error option \<times> response option \<times> string option)
     \<Rightarrow> (string \<Rightarrow> jsval option) \<Rightarrow> adapter \<Rightarrow> effect list \<times> outcome" where
  "postRecord request JSON_parse this = post request JSON_parse (adapter_connector this)"

text \<open>
  The arrow function that \<open>healthcheck\<close> gives to \<open>getRecord\<close>. \<open>callback\<close> tells whether
  the optional callback was given (a function is truthy, \<open>undefined\<close> is not).
\<close>

definition healthcheck_arrow :: "adapter \<Rightarrow> bool \<Rightarrow> cb_arg \<Rightarrow> cb_arg \<Rightarrow> effect list" where
  "healthcheck_arrow this callback result error =
     (if truthy_arg error then
        [Log LError ([CHR 0x0A] @ ''Error with external system with ID:'' @ [CHR 0x0A] @ id this)]
        @ emitOffline this
        @ (if callback then [Callback result error] else [])
      else
        [Log LDebug ([CHR 0x0A] @ ''External system is available and healthy!'')]
        @ emitOnline this
        @ (if callback then [Callback result error] else []))"

text \<open>
  \<open>healthcheck\<close> runs its arrow function on what \<open>getRecord\<close> reports. The result is
  everything done, in order, and the exception when one escaped from the connector (the
  arrow function is then not run).
\<close>

definition healthcheck ::
  "(request_options \<Rightarrow> js_error option \<times> response option \<times> string option)
     \<Rightarrow> (string \<Rightarrow> jsval option) \<Rightarrow> adapter \<Rightarrow> bool \<Rightarrow> effect list \<times> exn option" where
  "healthcheck request JSON_parse this callback =
     (case getRecord request JSON_parse this of
        (effs, Called result error) \<Rightarrow>
          (effs @ healthcheck_arrow this callback result error, None)
      | (effs, Threw e) \<Rightarrow> (effs, Some e))"

text \<open>\<open>connect\<close> is one health check without a callback.\<close>

definition connect ::
  "(request_options \<Rightarrow> js_error option \<times> response option \<times> string option)
     \<Rightarrow> (string \<Rightarrow> jsval option) \<Rightarrow> adapter \<Rightarrow> effect list \<times> exn option" where
  "connect request JSON_parse this = healthcheck request JSON_parse this False"

section \<open>Notions used in the statements\<close>

text \<open>An object or an array: a value that can carry properties.\<close>

fun is_object :: "jsval \<Rightarrow> bool" where
  "is_object (JObj ps) = True"
| "is_object (JArr xs ps) = True"
| "is_object v = False"

text \<open>The own properties of a record after the arrow function of \<open>forEach\<close> has run on it.\<close>

definition projected_props :: "(string \<times> jsval) list \<Rightarrow> (string \<times> jsval) list" where
  "projected_props ps =
     fold AList.delete deleted_fields
       (AList.update ''change_ticket_key'' (case map_of ps ''sys_id'' of None \<Rightarrow> JUndefined | Some v \<Rightarrow> v)
         (AList.update ''change_ticket_number''
            (case map_of ps ''number'' of None \<Rightarrow> JUndefined | Some v \<Rightarrow> v) ps))"

definition is_emit :: "effect \<Rightarrow> bool" where
  "is_emit x = (case x of Emit status payload \<Rightarrow> True | _ \<Rightarrow> False)"

subsection \<open>Concrete inputs for the examples\<close>

definition example_properties :: adapterProperties where
  "example_properties =
     \<lparr> ap_url = ''https://dev00000.service-now.com'', ap_auth_username = ''admin'',
       ap_auth_password = ''secret'', ap_serviceNowTable = ''change_request'' \<rparr>"

definition example_adapter :: adapter where
  "example_adapter = ServiceNowAdapter ''ServiceNow'' example_properties"

definition example_connector :: connector where
  "example_connector = adapter_connector example_adapter"

text \<open>
  \<open>JSON.parse\<close> on the bodies used in the examples: the value it returns on each of the
  three JSON texts, and a \<open>SyntaxError\<close> on the malformed text \<open>x\<close> (and, here, on every
  text that no example uses).
\<close>

definition example_JSON_parse :: "string \<Rightarrow> jsval option" where
  \<open>example_JSON_parse s =
     (if s = ''{"result":[{"number":"CHG001","sys_id":"abc","risk":"high"}]}'' then
        Some (JObj [(''result'',
                JArr [JObj [(''number'', JStr ''CHG001''), (''sys_id'', JStr ''abc''),
                            (''risk'', JStr ''high'')]] [])])
      else if s = ''{"result":[{"risk":"high"}]}'' then
        Some (JObj [(''result'', JArr [JObj [(''risk'', JStr ''high'')]] [])])
      else if s = ''{}'' then Some (JObj [])
      else None)\<close>

section \<open>Strings and status codes\<close>

lemma js_includes_sublist: "js_includes s sub \<longleftrightarrow> sublist sub s"
  by (induction s) (auto simp: sublist_Cons_right)

lemma js_includes_iff: "js_includes s sub \<longleftrightarrow> (\<exists>p q. s = p @ sub @ q)"
  by (simp add: js_includes_sublist sublist_def)

lemma not_hibernating_short: "length (body r) < 6 \<Longrightarrow> \<not> isHibernating r"
proof
  assume short: "length (body r) < 6" and "isHibernating r"
  then have "js_includes (body r) ''<html>''" by (simp add: isHibernating_def)
  then obtain p q where "body r = p @ ''<html>'' @ q" by (auto simp: js_includes_iff)
  then have "6 \<le> length (body r)" by simp
  with short show False by simp
qed

lemma digit_char_is_digit: "d < 10 \<Longrightarrow> is_digit (digit_char d)"
proof -
  assume "d < 10"
  then have "d \<in> {0,1,2,3,4,5,6,7,8,9}" by auto
  then show ?thesis by (auto simp: is_digit_def digit_char_def)
qed

lemma digit_char_2: "d < 10 \<Longrightarrow> digit_char d = CHR ''2'' \<longleftrightarrow> d = 2"
proof -
  assume "d < 10"
  then have "d \<in> {0,1,2,3,4,5,6,7,8,9}" by auto
  then show ?thesis by (auto simp: digit_char_def)
qed

lemma nat_to_string_3: 
  assumes "100 \<le> n" "n \<le> 999"
  shows "nat_to_string n = [digit_char (n div 100), digit_char (n div 10 mod 10), digit_char (n mod 10)]"
proof -
  have a: "\<not> n < 10" "\<not> n div 10 < 10" "n div 10 div 10 < 10" using assms by auto
  have b: "n div 10 div 10 = n div 100" by (simp add: div_mult2_eq)
  show ?thesis
    using a b by (simp add: nat_to_string.simps [of n] nat_to_string.simps [of "n div 10"] nat_to_string.simps [of "n div 100"])
qed

lemma nat_to_string_short: "n < 100 \<Longrightarrow> length (nat_to_string n) < 3"
  by (simp add: nat_to_string.simps [of n] nat_to_string.simps [of "n div 10"])

lemma nat_to_string_hd: "nat_to_string n \<noteq> [] \<and> is_digit (hd (nat_to_string n))"
proof (induction n rule: nat_to_string.induct)
  case (1 n)
  show ?case
  proof (cases "n < 10")
    case True
    then have "n \<in> {0,1,2,3,4,5,6,7,8,9}" by auto
    then show ?thesis by (auto simp: nat_to_string.simps [of n] is_digit_def digit_char_def)
  next
    case False
    with 1 show ?thesis by (simp add: nat_to_string.simps [of n])
  qed
qed

lemma test_string_short: "length s < 3 \<Longrightarrow> \<not> validResponseRegex_test_string s"
  by (induction s rule: validResponseRegex_test_string.induct) (auto elim: match_2dd_here.elims)

lemma small_safe_integer: "- 10000 < c \<Longrightarrow> c < 10000 \<Longrightarrow> safe_integer c"
  by (simp add: safe_integer_def)

lemma number_to_string_safe:
  "safe_integer i \<Longrightarrow>
     number_to_string i =
       (if i < 0 then CHR ''-'' # nat_to_string (nat (- i)) else nat_to_string (nat i))"
  by (simp add: number_to_string_def)

lemma three_digit_codes:
  assumes "0 \<le> c" "c \<le> 999"
  shows "validResponseRegex_test c \<longleftrightarrow> 200 \<le> c \<and> c \<le> 299"
proof (cases "c < 100")
  case True
  then have "nat c < 100" using assms by simp
  from nat_to_string_short [OF this] test_string_short
  show ?thesis using True assms
    by (simp add: validResponseRegex_test_def number_to_string_safe small_safe_integer)
next
  case False
  then have r: "100 \<le> nat c" "nat c \<le> 999" using assms by auto
  have d: "nat c div 100 < 10" "nat c div 10 mod 10 < 10" "nat c mod 10 < 10" using r by auto
  have "nat c div 100 = 2 \<longleftrightarrow> 200 \<le> c \<and> c \<le> 299" using assms False by auto
  then show ?thesis
    using assms d by (simp add: validResponseRegex_test_def number_to_string_safe
       small_safe_integer nat_to_string_3 [OF r]
       digit_char_is_digit digit_char_2)
qed

lemma status_2xx_valid: "200 \<le> c \<Longrightarrow> c \<le> 299 \<Longrightarrow> validResponseRegex_test c"
  using three_digit_codes [of c] by simp

section \<open>The projection of one record\<close>

lemma map_of_fold_delete:
  "map_of (fold AList.delete ks ps) k = (if k \<in> set ks then None else map_of ps k)"
  by (induction ks arbitrary: ps) (auto simp: delete_conv')

lemma keys_fold_delete:
  "fst ` set (fold AList.delete ks ps) = fst ` set ps - set ks"
  by (induction ks arbitrary: ps) (auto simp: AList.delete_eq)

lemma delete_fields_JObj: "delete_fields (JObj ps) ks = Inr (JObj (fold AList.delete ks ps))"
  by (induction ks arbitrary: ps) auto

lemma delete_fields_JArr: "delete_fields (JArr xs ps) ks = Inr (JArr xs (fold AList.delete ks ps))"
  by (induction ks arbitrary: ps) auto

lemma renamed_not_deleted:
  "''change_ticket_number'' \<notin> set deleted_fields" "''change_ticket_key'' \<notin> set deleted_fields"
  by (simp_all add: deleted_fields_def)

lemma deleted_fields_all_names:
  "list_all (\<lambda>k. k \<noteq> ''length'' \<and> \<not> is_digit (hd k)) deleted_fields"
  by (simp add: deleted_fields_def is_digit_def)

lemma deleted_fields_hd: "k \<in> set deleted_fields \<Longrightarrow> k \<noteq> ''length'' \<and> \<not> is_digit (hd k)"
  using deleted_fields_all_names by (simp add: list_all_iff)

lemma deleted_not_index: "k \<in> set deleted_fields \<Longrightarrow> k \<noteq> nat_to_string n"
  using deleted_fields_hd nat_to_string_hd by blast

lemma project_result_JObj: "project_result (JObj ps) = Inr (JObj (projected_props ps))"
  by (simp add: project_result_def projected_props_def delete_fields_JObj update_conv')

lemma project_result_JArr: "project_result (JArr xs ps) = Inr (JArr xs (projected_props ps))"
  by (simp add: project_result_def projected_props_def delete_fields_JArr update_conv')

lemma project_result_not_object: "\<not> is_object v \<Longrightarrow> project_result v = Inl TypeError"
  by (cases v) (simp_all add: project_result_def)

lemma project_result_object: "project_result x = Inr y \<Longrightarrow> is_object x"
  by (rule ccontr) (simp add: project_result_not_object)

lemma map_of_projected_props:
  "map_of (projected_props ps) k =
     (if k \<in> set deleted_fields then None
      else if k = ''change_ticket_key'' then Some (case map_of ps ''sys_id'' of None \<Rightarrow> JUndefined | Some v \<Rightarrow> v)
      else if k = ''change_ticket_number'' then Some (case map_of ps ''number'' of None \<Rightarrow> JUndefined | Some v \<Rightarrow> v)
      else map_of ps k)"
  by (simp add: projected_props_def map_of_fold_delete update_conv')

lemma keys_projected_props:
  "fst ` set (projected_props ps) =
     (insert ''change_ticket_key'' (insert ''change_ticket_number'' (fst ` set ps))) - set deleted_fields"
  by (simp add: projected_props_def keys_fold_delete dom_update insert_commute)

lemma project_result_Inr:
  assumes "project_result x = Inr y"
  shows "(\<exists>ps. x = JObj ps \<and> y = JObj (projected_props ps))
       \<or> (\<exists>xs ps. x = JArr xs ps \<and> y = JArr xs (projected_props ps))"
proof (cases "is_object x")
  case True
  then show ?thesis using assms
    by (cases x) (simp_all add: project_result_JObj project_result_JArr)
next
  case False
  then show ?thesis using assms by (simp add: project_result_not_object)
qed

lemma project_result_renames:
  assumes "project_result x = Inr y"
  shows "get_field y ''change_ticket_number'' = get_field x ''number''"
    and "get_field y ''change_ticket_key'' = get_field x ''sys_id''"
  using project_result_Inr [OF assms]
  by (auto simp: map_of_projected_props renamed_not_deleted)

lemma project_result_deletes:
  assumes "project_result x = Inr y" "k \<in> set deleted_fields"
  shows "\<not> has_own y k"
proof -
  have idx: "k \<notin> set (map nat_to_string [0..<m])" for m
    using deleted_not_index [OF assms(2)] by auto
  have len: "k \<noteq> ''length''"
    using deleted_fields_hd [OF assms(2)] by simp
  from project_result_Inr [OF assms(1)] show ?thesis
    using assms(2) idx len by (auto simp: keys_projected_props simp del: set_map set_upt)
qed

lemma project_result_has_renamed:
  assumes "project_result x = Inr y"
  shows "has_own y ''change_ticket_number''" and "has_own y ''change_ticket_key''"
  using project_result_Inr [OF assms]
  by (auto simp: keys_projected_props renamed_not_deleted)

lemma project_result_keeps:
  assumes "project_result x = Inr y" "k \<notin> set deleted_fields"
    "k \<noteq> ''change_ticket_number''" "k \<noteq> ''change_ticket_key''"
  shows "get_field y k = get_field x k"
  using project_result_Inr [OF assms(1)] assms(2-)
  by (auto simp: map_of_projected_props)

lemma get_field_error: "get_field v k = Inl e \<Longrightarrow> e = TypeError"
  by (cases v) simp_all

lemma absent_field_undefined:
  assumes "is_object x" "\<not> has_own x k"
  shows "get_field x k = Inr JUndefined"
proof (cases x)
  case (JObj ps)
  with assms(2) have "map_of ps k = None" by (simp add: map_of_eq_None_iff)
  with JObj show ?thesis by simp
next
  case (JArr xs ps)
  with assms(2) have "map_of ps k = None" by (simp add: map_of_eq_None_iff)
  with JArr show ?thesis by simp
qed (use assms(1) in simp_all)

section \<open>The iteration over the records\<close>

lemma for_each_Inr:
  "for_each f xs = Inr ys \<Longrightarrow> length ys = length xs \<and> (\<forall>i<length xs. f (xs ! i) = Inr (ys ! i))"
proof (induction xs arbitrary: ys)
  case Nil
  then show ?case by simp
next
  case (Cons x xs)
  from Cons.prems obtain y ys' where y: "f x = Inr y" and ys': "for_each f xs = Inr ys'"
    and eq: "ys = y # ys'"
    by (auto split: sum.splits)
  from Cons.IH [OF ys'] y eq show ?case
    by (auto simp: nth_Cons split: nat.splits)
qed

lemma for_each_total:
  "(\<forall>x\<in>set xs. \<exists>y. f x = Inr y) \<Longrightarrow> \<exists>ys. for_each f xs = Inr ys"
  by (induction xs) (auto split: sum.splits)

lemma for_each_project_objects:
  "(\<forall>x\<in>set xs. is_object x) \<Longrightarrow> \<exists>ys. for_each project_result xs = Inr ys"
proof (rule for_each_total, rule ballI)
  fix x assume "\<forall>x\<in>set xs. is_object x" "x \<in> set xs"
  then have "is_object x" by simp
  then show "\<exists>y. project_result x = Inr y"
    by (cases x) (simp_all add: project_result_JObj project_result_JArr)
qed

lemma results_forEach_Inr:
  assumes "results_forEach (JArr xs ps) = Inr v"
  obtains ys where "for_each project_result xs = Inr ys" "v = JArr ys ps"
  using assms by (auto split: sum.splits if_splits)

lemma results_forEach_not_array:
  "\<forall>xs ps. v \<noteq> JArr xs ps \<Longrightarrow> results_forEach v = Inl TypeError"
  by (cases v) simp_all

section \<open>The paths of processRequestResults\<close>

lemma undefined_response_throws:
  "processRequestResults JSON_parse None None body_arg = ([], Threw TypeError)"
  by (simp add: processRequestResults_def)

lemma bad_status_path:
  assumes "\<not> isHibernating r" "\<not> validResponseRegex_test (statusCode r)"
  shows "processRequestResults JSON_parse None (Some r) body_arg =
           ([Log LError ''Bad response code.''], Called (Val JNull) (ResponseObj r))"
  using assms by (simp add: processRequestResults_def)

lemma three_digit_status_path:
  assumes "0 \<le> statusCode r" "statusCode r \<le> 999"
    "\<not> (200 \<le> statusCode r \<and> statusCode r \<le> 299)" "\<not> isHibernating r"
  shows "processRequestResults JSON_parse None (Some r) body_arg =
           ([Log LError ''Bad response code.''], Called (Val JNull) (ResponseObj r))"
proof -
  have "\<not> validResponseRegex_test (statusCode r)"
    using three_digit_codes [OF assms(1,2)] assms(3) by simp
  with assms(4) show ?thesis by (rule bad_status_path)
qed

lemma empty_body_path:
  assumes "\<not> isHibernating r" "validResponseRegex_test (statusCode r)" "body r = []"
  shows "processRequestResults JSON_parse None (Some r) body_arg =
           ([], Called (Val JNull) (Val JNull))"
  using assms by (simp add: processRequestResults_def)

lemma processRequestResults_success:
  assumes "\<not> isHibernating r" "validResponseRegex_test (statusCode r)" "body r \<noteq> []"
    "JSON_parse (body r) = Some jsonBody" "get_field jsonBody ''result'' = Inr results"
  shows "processRequestResults JSON_parse None (Some r) body_arg =
           (case results_forEach results of
              Inl e \<Rightarrow> ([], Threw e)
            | Inr results' \<Rightarrow> ([], Called (Val results') (Val JNull)))"
  using assms by (simp add: processRequestResults_def)

lemma called_data:
  assumes "(case results_forEach results of
              Inl e \<Rightarrow> ([], Threw e)
            | Inr results' \<Rightarrow> ([], Called (Val results') (Val JNull))) = (effs, Called d e)"
  shows "results_forEach results = Inr (case d of Val v \<Rightarrow> v) \<and> d = Val (case d of Val v \<Rightarrow> v) \<and> e = Val JNull \<and> effs = []"
  using assms by (cases "results_forEach results") auto

lemma success_called_list:
  assumes "\<not> isHibernating r" "validResponseRegex_test (statusCode r)" "body r \<noteq> []"
    "JSON_parse (body r) = Some jsonBody" "get_field jsonBody ''result'' = Inr (JArr xs ps)"
    "processRequestResults JSON_parse None (Some r) body_arg = (effs, Called d e)"
  shows "\<exists>ys. d = Val (JArr ys ps) \<and> e = Val JNull \<and> effs = [] \<and> length ys = length xs
           \<and> (\<forall>i<length xs. project_result (xs ! i) = Inr (ys ! i))"
proof -
  have run: "processRequestResults JSON_parse None (Some r) body_arg =
           (case results_forEach (JArr xs ps) of
              Inl e \<Rightarrow> ([], Threw e)
            | Inr results' \<Rightarrow> ([], Called (Val results') (Val JNull)))"
    using assms(1-5) by (rule processRequestResults_success)
  from called_data [OF assms(6) [unfolded run]]
  obtain v where fe: "results_forEach (JArr xs ps) = Inr v" and d: "d = Val v"
    and e: "e = Val JNull" and effs: "effs = []"
    by blast
  from fe obtain ys where ys: "for_each project_result xs = Inr ys" and v: "v = JArr ys ps"
    by (rule results_forEach_Inr)
  from for_each_Inr [OF ys] have "length ys = length xs"
    and "\<forall>i<length xs. project_result (xs ! i) = Inr (ys ! i)"
    by simp_all
  with d v e effs show ?thesis by simp
qed

lemma success_objects_called:
  assumes "\<not> isHibernating r" "validResponseRegex_test (statusCode r)" "body r \<noteq> []"
    "JSON_parse (body r) = Some jsonBody" "get_field jsonBody ''result'' = Inr (JArr xs ps)"
    "\<forall>x\<in>set xs. is_object x" "map_of ps ''forEach'' = None"
  shows "\<exists>ys. processRequestResults JSON_parse None (Some r) body_arg =
              ([], Called (Val (JArr ys ps)) (Val JNull))"
proof -
  from for_each_project_objects [OF assms(6)]
  obtain ys where ys: "for_each project_result xs = Inr ys" by blast
  have "processRequestResults JSON_parse None (Some r) body_arg =
          ([], Called (Val (JArr ys ps)) (Val JNull))"
    unfolding processRequestResults_success [of r JSON_parse jsonBody "JArr xs ps" body_arg,
        OF assms(1-5)]
    using ys assms(7) by simp
  then show ?thesis by blast
qed

lemma processRequestResults_no_emit:
  "filter is_emit (fst (processRequestResults JSON_parse error response body_arg)) = []"
  by (simp add: processRequestResults_def is_emit_def split: option.splits sum.splits)

lemma processRequestResults_error_arg:
  assumes "processRequestResults JSON_parse error response body_arg = (effs, Called d e)"
  shows "truthy_arg e \<longleftrightarrow> e \<noteq> Val JNull"
  using assms
  by (auto simp: processRequestResults_def split: option.splits sum.splits if_splits)

section \<open>The connector methods and the health check\<close>

lemma constructUri_unfold:
  "constructUri this query =
     (''/api/now/table/'' @ serviceNowTable (options this)
        @ (case query of None \<Rightarrow> [] | Some q \<Rightarrow> if q = [] then [] else ''?'' @ q),
      this,
      [Log LDebug (''URI: '' @ ''/api/now/table/'' @ serviceNowTable (options this)
        @ (case query of None \<Rightarrow> [] | Some q \<Rightarrow> if q = [] then [] else ''?'' @ q))])"
  by (simp add: constructUri_def Let_def split: option.splits)

lemma sendRequest_unfold:
  "sendRequest request JSON_parse this callOptions =
     (let q = (case co_query callOptions of
                 Some q \<Rightarrow> if q = [] then None else Some q
               | None \<Rightarrow> None);
          u = fst (constructUri this q);
          requestOptions = \<lparr> http_method = co_method callOptions,
                             auth_user = username (options this),
                             auth_pass = password (options this),
                             baseUrl = url (options this),
                             uri = u \<rparr>;
          res = processRequestResults JSON_parse (fst (request requestOptions))
                  (fst (snd (request requestOptions))) (snd (snd (request requestOptions)))
      in ([Log LDebug (''URI: '' @ u), Request requestOptions] @ fst res, snd res))"
  by (simp add: sendRequest_def constructUri_unfold Let_def split: option.splits prod.splits)

lemma get_unfold:
  "get request JSON_parse this =
     (let requestOptions = \<lparr> http_method = ''GET'',
                             auth_user = username (options this),
                             auth_pass = password (options this),
                             baseUrl = url (options this),
                             uri = ''/api/now/table/'' @ serviceNowTable (options this) \<rparr>;
          res = processRequestResults JSON_parse (fst (request requestOptions))
                  (fst (snd (request requestOptions))) (snd (snd (request requestOptions)))
      in ([Log LDebug (''URI: /api/now/table/'' @ serviceNowTable (options this)),
           Request requestOptions] @ fst res, snd res))"
  by (simp add: get_def sendRequest_unfold constructUri_unfold Let_def)

lemma get_no_emit: "filter is_emit (fst (get request JSON_parse this)) = []"
  by (simp add: get_unfold Let_def processRequestResults_no_emit) (simp add: is_emit_def)

lemma get_error_arg:
  assumes "get request JSON_parse this = (effs, Called d e)"
  shows "truthy_arg e \<longleftrightarrow> e \<noteq> Val JNull"
proof -
  let ?ro = "\<lparr> http_method = ''GET'', auth_user = username (options this),
               auth_pass = password (options this), baseUrl = url (options this),
               uri = ''/api/now/table/'' @ serviceNowTable (options this) \<rparr>"
  let ?res = "processRequestResults JSON_parse (fst (request ?ro))
                  (fst (snd (request ?ro))) (snd (snd (request ?ro)))"
  from assms have "snd ?res = Called d e" by (simp add: get_unfold Let_def)
  then have "?res = (fst ?res, Called d e)" by (metis prod.collapse)
  then show ?thesis by (rule processRequestResults_error_arg)
qed

lemma healthcheck_arrow_emits:
  "filter is_emit (healthcheck_arrow this callback result error) =
     [Emit (if truthy_arg error then ''OFFLINE'' else ''ONLINE'') (JObj [(''id'', JStr (id this))])]"
  by (simp add: healthcheck_arrow_def emitOffline_def emitOnline_def emitStatus_def is_emit_def)

section \<open>The examples, evaluated\<close>

lemma example_connector_eq:
  "example_connector =
     \<lparr> options = \<lparr> url = ''https://dev00000.service-now.com'', username = ''admin'',
                   password = ''secret'', serviceNowTable = ''change_request'' \<rparr> \<rparr>"
  by (simp add: example_connector_def example_adapter_def ServiceNowAdapter_def
      ServiceNowConnector_def example_properties_def)

lemma example_adapter_eq:
  "example_adapter =
     \<lparr> id = ''ServiceNow'', props = example_properties, adapter_connector = example_connector \<rparr>"
  by (simp add: example_connector_def) (simp add: example_adapter_def ServiceNowAdapter_def)

lemma valid_200: "validResponseRegex_test 200"
  by (rule status_2xx_valid) simp_all

lemma valid_1200: "validResponseRegex_test 1200"
  by (simp add: validResponseRegex_test_def number_to_string_safe small_safe_integer
      nat_to_string.simps digit_char_def is_digit_def)

lemma server_error_not_hibernating:
  "\<not> isHibernating \<lparr>statusCode = 500, body = ''Internal Server Error''\<rparr>"
  by (simp add: isHibernating_def)

lemma hibernating_page:
  "isHibernating \<lparr>statusCode = 200, body = ''<html><body>Instance Hibernating page</body></html>''\<rparr>"
  by (simp add: isHibernating_def)

lemma parse_malformed: "example_JSON_parse ''x'' = None"
  by (simp add: example_JSON_parse_def)

lemma parse_empty_object: "example_JSON_parse ''{}'' = Some (JObj [])"
  by (simp add: example_JSON_parse_def)

lemma scenario1_parse:
  \<open>example_JSON_parse ''{"result":[{"number":"CHG001","sys_id":"abc","risk":"high"}]}'' =
     Some (JObj [(''result'',
                JArr [JObj [(''number'', JStr ''CHG001''), (''sys_id'', JStr ''abc''),
                            (''risk'', JStr ''high'')]] [])])\<close>
  by (simp add: example_JSON_parse_def)

lemma scenario1_props:
  "projected_props [(''number'', JStr ''CHG001''), (''sys_id'', JStr ''abc''), (''risk'', JStr ''high'')]
     = [(''change_ticket_number'', JStr ''CHG001''), (''change_ticket_key'', JStr ''abc'')]"
  by (simp add: projected_props_def deleted_fields_def)

lemma scenario1_not_hibernating:
  \<open>\<not> isHibernating \<lparr>statusCode = 200,
       body = ''{"result":[{"number":"CHG001","sys_id":"abc","risk":"high"}]}''\<rparr>\<close>
  by (simp add: isHibernating_def)

lemma scenario1_run:
  \<open>processRequestResults example_JSON_parse None
     (Some \<lparr>statusCode = 200,
             body = ''{"result":[{"number":"CHG001","sys_id":"abc","risk":"high"}]}''\<rparr>) None =
   ([], Called (Val (JArr [JObj [(''change_ticket_number'', JStr ''CHG001''),
                                 (''change_ticket_key'', JStr ''abc'')]] [])) (Val JNull))\<close>
proof -
  let ?r = \<open>\<lparr>statusCode = 200,
             body = ''{"result":[{"number":"CHG001","sys_id":"abc","risk":"high"}]}''\<rparr>\<close>
  have v: "validResponseRegex_test (statusCode ?r)" by (simp add: valid_200)
  have b: "body ?r \<noteq> []" by simp
  have p: "example_JSON_parse (body ?r) = Some (JObj [(''result'',
                JArr [JObj [(''number'', JStr ''CHG001''), (''sys_id'', JStr ''abc''),
                            (''risk'', JStr ''high'')]] [])])"
    using scenario1_parse by simp
  have g: "get_field (JObj [(''result'',
                JArr [JObj [(''number'', JStr ''CHG001''), (''sys_id'', JStr ''abc''),
                            (''risk'', JStr ''high'')]] [])]) ''result'' = Inr (JArr [JObj [(''number'', JStr ''CHG001''), (''sys_id'', JStr ''abc''),
                            (''risk'', JStr ''high'')]] [])" by simp
  show ?thesis
    unfolding processRequestResults_success [of ?r example_JSON_parse, OF scenario1_not_hibernating v b p g]
    by (simp add: project_result_JObj scenario1_props)
qed

lemma scenario1_get:
  \<open>get (\<lambda>requestOptions.
         (None,
          Some \<lparr>statusCode = 200,
                 body = ''{"result":[{"number":"CHG001","sys_id":"abc","risk":"high"}]}''\<rparr>,
          Some ''{"result":[{"number":"CHG001","sys_id":"abc","risk":"high"}]}''))
      example_JSON_parse example_connector =
    ([Log LDebug ''URI: /api/now/table/change_request'',
      Request \<lparr>http_method = ''GET'', auth_user = ''admin'', auth_pass = ''secret'',
               baseUrl = ''https://dev00000.service-now.com'',
               uri = ''/api/now/table/change_request''\<rparr>],
     Called (Val (JArr [JObj [(''change_ticket_number'', JStr ''CHG001''),
                              (''change_ticket_key'', JStr ''abc'')]] []))
            (Val JNull))\<close>
proof -
  have run: \<open>processRequestResults example_JSON_parse None
     (Some \<lparr>statusCode = 200,
             body = ''{"result":[{"number":"CHG001","sys_id":"abc","risk":"high"}]}''\<rparr>)
     (Some ''{"result":[{"number":"CHG001","sys_id":"abc","risk":"high"}]}'') =
   ([], Called (Val (JArr [JObj [(''change_ticket_number'', JStr ''CHG001''),
                                 (''change_ticket_key'', JStr ''abc'')]] [])) (Val JNull))\<close>
    using scenario1_run by (simp add: processRequestResults_def)
  show ?thesis
    unfolding get_unfold Let_def fst_conv snd_conv run
    by (simp add: example_connector_eq)
qed

lemma scenario2_parse:
  \<open>example_JSON_parse ''{"result":[{"risk":"high"}]}'' =
     Some (JObj [(''result'', JArr [JObj [(''risk'', JStr ''high'')]] [])])\<close>
  by (simp add: example_JSON_parse_def)

lemma scenario2_props:
  "projected_props [(''risk'', JStr ''high'')]
     = [(''change_ticket_number'', JUndefined), (''change_ticket_key'', JUndefined)]"
  by (simp add: projected_props_def deleted_fields_def)

lemma scenario2_not_hibernating:
  \<open>\<not> isHibernating \<lparr>statusCode = 200, body = ''{"result":[{"risk":"high"}]}''\<rparr>\<close>
  by (simp add: isHibernating_def)

lemma scenario2_run:
  \<open>processRequestResults example_JSON_parse None
     (Some \<lparr>statusCode = 200, body = ''{"result":[{"risk":"high"}]}''\<rparr>) None =
   ([], Called (Val (JArr [JObj [(''change_ticket_number'', JUndefined),
                                 (''change_ticket_key'', JUndefined)]] [])) (Val JNull))\<close>
proof -
  let ?r = \<open>\<lparr>statusCode = 200, body = ''{"result":[{"risk":"high"}]}''\<rparr>\<close>
  let ?x = "JObj [(''risk'', JStr ''high'')]"
  have v: "validResponseRegex_test (statusCode ?r)" by (simp add: valid_200)
  have b: "body ?r \<noteq> []" by simp
  have p: "example_JSON_parse (body ?r) = Some (JObj [(''result'', JArr [?x] [])])"
    using scenario2_parse by simp
  have g: "get_field (JObj [(''result'', JArr [?x] [])]) ''result'' = Inr (JArr [?x] [])"
    by simp
  show ?thesis
    unfolding processRequestResults_success [of ?r example_JSON_parse, OF scenario2_not_hibernating v b p g]
    by (simp add: project_result_JObj scenario2_props)
qed

section \<open>The claims\<close>

text \<open>
  C1. A successful GET response: no transport error, not hibernating, a 2xx status and a
  non-empty body whose parsed value has an array \<open>result\<close>. Whenever the callback is
  invoked, its data argument is a list as long as \<open>result\<close>, and its element \<open>i\<close> has
  \<open>change_ticket_number\<close> equal to the field \<open>number\<close> of the input element \<open>i\<close>,
  \<open>change_ticket_key\<close> equal to its field \<open>sys_id\<close>, and none of the deleted fields. And
  the callback is invoked whenever every element of \<open>result\<close> is an object (and the array
  has no own property \<open>forEach\<close>, as after \<open>JSON.parse\<close>).
\<close>

theorem C1_normalized_records:
  assumes "200 \<le> statusCode r" "statusCode r \<le> 299" "\<not> isHibernating r" "body r \<noteq> []"
    "JSON_parse (body r) = Some jsonBody"
    "get_field jsonBody ''result'' = Inr (JArr xs ps)"
  shows "(\<forall>effs d e.
            processRequestResults JSON_parse None (Some r) body_arg = (effs, Called d e) \<longrightarrow>
            (\<exists>ys. d = Val (JArr ys ps) \<and> length ys = length xs \<and>
               (\<forall>i<length xs.
                  get_field (ys ! i) ''change_ticket_number'' = get_field (xs ! i) ''number'' \<and>
                  get_field (ys ! i) ''change_ticket_key'' = get_field (xs ! i) ''sys_id'' \<and>
                  (\<forall>k\<in>set deleted_fields. \<not> has_own (ys ! i) k))))
       \<and> ((\<forall>x\<in>set xs. is_object x) \<longrightarrow> map_of ps ''forEach'' = None \<longrightarrow>
            (\<exists>ys. processRequestResults JSON_parse None (Some r) body_arg =
                     ([], Called (Val (JArr ys ps)) (Val JNull))))"
proof -
  have valid: "validResponseRegex_test (statusCode r)"
    using assms(1,2) by (rule status_2xx_valid)
  show ?thesis
  proof (intro conjI allI impI)
    fix effs d e
    assume called: "processRequestResults JSON_parse None (Some r) body_arg = (effs, Called d e)"
    from success_called_list [OF assms(3) valid assms(4,5,6) called]
    obtain ys where d: "d = Val (JArr ys ps)" and len: "length ys = length xs"
      and el: "\<And>i. i < length xs \<Longrightarrow> project_result (xs ! i) = Inr (ys ! i)"
      by blast
    show "\<exists>ys. d = Val (JArr ys ps) \<and> length ys = length xs \<and>
               (\<forall>i<length xs.
                  get_field (ys ! i) ''change_ticket_number'' = get_field (xs ! i) ''number'' \<and>
                  get_field (ys ! i) ''change_ticket_key'' = get_field (xs ! i) ''sys_id'' \<and>
                  (\<forall>k\<in>set deleted_fields. \<not> has_own (ys ! i) k))"
    proof (intro exI conjI allI impI ballI)
      show "d = Val (JArr ys ps)" by (rule d)
      show "length ys = length xs" by (rule len)
    next
      fix i assume "i < length xs"
      then show "get_field (ys ! i) ''change_ticket_number'' = get_field (xs ! i) ''number''"
        by (rule project_result_renames(1) [OF el])
    next
      fix i assume "i < length xs"
      then show "get_field (ys ! i) ''change_ticket_key'' = get_field (xs ! i) ''sys_id''"
        by (rule project_result_renames(2) [OF el])
    next
      fix i k assume "i < length xs" "k \<in> set deleted_fields"
      then show "\<not> has_own (ys ! i) k"
        by (rule project_result_deletes [OF el])
    qed
  next
    assume "\<forall>x\<in>set xs. is_object x" "map_of ps ''forEach'' = None"
    with assms(3) valid assms(4,5,6)
    show "\<exists>ys. processRequestResults JSON_parse None (Some r) body_arg =
                 ([], Called (Val (JArr ys ps)) (Val JNull))"
      by (rule success_objects_called)
  qed
qed

theorem C1_normalized_records_witness:
  \<open>processRequestResults example_JSON_parse None
     (Some \<lparr>statusCode = 200,
             body = ''{"result":[{"number":"CHG001","sys_id":"abc","risk":"high"}]}''\<rparr>) None =
   ([], Called (Val (JArr [JObj [(''change_ticket_number'', JStr ''CHG001''),
                                 (''change_ticket_key'', JStr ''abc'')]] [])) (Val JNull))
   \<and> \<not> has_own (JObj [(''change_ticket_number'', JStr ''CHG001''),
                        (''change_ticket_key'', JStr ''abc'')]) ''risk''\<close>
proof -
  let ?r = \<open>\<lparr>statusCode = 200,
             body = ''{"result":[{"number":"CHG001","sys_id":"abc","risk":"high"}]}''\<rparr>\<close>
  let ?x = "JObj [(''number'', JStr ''CHG001''), (''sys_id'', JStr ''abc''), (''risk'', JStr ''high'')]"
  let ?y = "JObj [(''change_ticket_number'', JStr ''CHG001''), (''change_ticket_key'', JStr ''abc'')]"
  have h1: "200 \<le> statusCode ?r" and h2: "statusCode ?r \<le> 299" and h4: "body ?r \<noteq> []"
    by simp_all
  have h5: "example_JSON_parse (body ?r) = Some (JObj [(''result'', JArr [?x] [])])"
    using scenario1_parse by simp
  have h6: "get_field (JObj [(''result'', JArr [?x] [])]) ''result'' = Inr (JArr [?x] [])"
    by simp
  from C1_normalized_records [where JSON_parse = example_JSON_parse and r = ?r and body_arg = None,
      OF h1 h2 scenario1_not_hibernating h4 h5 h6] scenario1_run
  obtain ys where ys: "Val (JArr [?y] []) = Val (JArr ys [])"
    and el: "\<forall>i<length [?x]. \<forall>k\<in>set deleted_fields. \<not> has_own (ys ! i) k"
    by blast
  from ys have "ys = [?y]" by simp
  then have "ys ! 0 = ?y" by simp
  with el have "\<forall>k\<in>set deleted_fields. \<not> has_own ?y k" by simp
  moreover have "''risk'' \<in> set deleted_fields" by (simp add: deleted_fields_def)
  ultimately have "\<not> has_own ?y ''risk''" by blast
  with scenario1_run show ?thesis by simp
qed

text \<open>
  C2. With a transport error the callback receives \<open>(null, error)\<close>, whatever the response
  and body arguments are. The response may be \<open>undefined\<close> (\<open>None\<close>), on which the
  hibernation check would throw (\<open>undefined_response_throws\<close>): the result does not
  depend on the response, so neither that check nor the status check is evaluated. The
  one log line is that of the error branch.
\<close>

theorem C2_transport_error:
  "processRequestResults JSON_parse (Some e) response body_arg =
     ([Log LError ''Error present.''], Called (Val JNull) (ErrorObj e))"
  by (simp add: processRequestResults_def)

theorem C2_transport_error_witness:
  "processRequestResults example_JSON_parse (Some (Error ''connect ECONNREFUSED'')) None None =
     ([Log LError ''Error present.''], Called (Val JNull) (ErrorObj (Error ''connect ECONNREFUSED'')))"
  by (rule C2_transport_error)

text \<open>
  C3. \<open>isHibernating\<close> holds exactly when the body contains \<open>Instance Hibernating page\<close>,
  contains \<open><html>\<close>, and the status code is 200; and then, without a transport error,
  the callback receives \<open>(null, "Hibernating instance")\<close>, for every \<open>JSON.parse\<close>: the
  body is not parsed.
\<close>

theorem C3_hibernating:
  "(isHibernating r \<longleftrightarrow>
      (\<exists>p q. body r = p @ ''Instance Hibernating page'' @ q)
      \<and> (\<exists>p q. body r = p @ ''<html>'' @ q)
      \<and> statusCode r = 200)
   \<and> (isHibernating r \<longrightarrow>
        processRequestResults JSON_parse None (Some r) body_arg =
          ([Log LError ''Hibernating instance''],
           Called (Val JNull) (Val (JStr ''Hibernating instance''))))"
  by (simp add: isHibernating_def js_includes_iff processRequestResults_def)

theorem C3_hibernating_witness:
  "isHibernating \<lparr>statusCode = 200, body = ''<html><body>Instance Hibernating page</body></html>''\<rparr>
   \<and> example_JSON_parse ''<html><body>Instance Hibernating page</body></html>'' = None
   \<and> processRequestResults example_JSON_parse None
         (Some \<lparr>statusCode = 200, body = ''<html><body>Instance Hibernating page</body></html>''\<rparr>)
         None =
       ([Log LError ''Hibernating instance''],
        Called (Val JNull) (Val (JStr ''Hibernating instance'')))"
proof -
  have "example_JSON_parse ''<html><body>Instance Hibernating page</body></html>'' = None"
    by (simp add: example_JSON_parse_def)
  with hibernating_page
    C3_hibernating [of "\<lparr>statusCode = 200, body = ''<html><body>Instance Hibernating page</body></html>''\<rparr>"
      example_JSON_parse None]
  show ?thesis by blast
qed

text \<open>
  C4 as stated fails at the status code 1200 with an empty body: the code is outside
  200..299, the response is not hibernating, and the callback receives \<open>(null, null)\<close>,
  not \<open>(null, response)\<close>. The pattern is not anchored and matches the \<open>200\<close> inside
  \<open>1200\<close>.
\<close>

theorem C4_counterexample:
  "\<not> (200 \<le> statusCode \<lparr>statusCode = 1200, body = ''''\<rparr>
        \<and> statusCode \<lparr>statusCode = 1200, body = ''''\<rparr> \<le> 299)
   \<and> \<not> isHibernating \<lparr>statusCode = 1200, body = ''''\<rparr>
   \<and> processRequestResults example_JSON_parse None (Some \<lparr>statusCode = 1200, body = ''''\<rparr>) None =
       ([], Called (Val JNull) (Val JNull))"
  by (simp add: processRequestResults_def valid_1200 not_hibernating_short)

text \<open>
  C4, amended. No transport error and not hibernating. Whenever the pattern \<open>/(2\d\d)/\<close>
  does not match the status code, the callback receives \<open>(null, response)\<close>, the raw
  response. For the status codes from 0 to 999, the ones a response of the HTTP client
  carries, the pattern fails to match exactly when the code is outside 200..299: so for
  every such code outside the 2xx range the callback receives \<open>(null, response)\<close>.
\<close>

theorem C4_bad_status:
  assumes "\<not> isHibernating r"
  shows "(\<not> validResponseRegex_test (statusCode r) \<longrightarrow>
            processRequestResults JSON_parse None (Some r) body_arg =
              ([Log LError ''Bad response code.''], Called (Val JNull) (ResponseObj r)))
       \<and> (0 \<le> statusCode r \<longrightarrow> statusCode r \<le> 999 \<longrightarrow>
            (\<not> validResponseRegex_test (statusCode r) \<longleftrightarrow>
               \<not> (200 \<le> statusCode r \<and> statusCode r \<le> 299)))
       \<and> (0 \<le> statusCode r \<longrightarrow> statusCode r \<le> 999 \<longrightarrow>
            \<not> (200 \<le> statusCode r \<and> statusCode r \<le> 299) \<longrightarrow>
            processRequestResults JSON_parse None (Some r) body_arg =
              ([Log LError ''Bad response code.''], Called (Val JNull) (ResponseObj r)))"
proof (intro conjI impI)
  assume "\<not> validResponseRegex_test (statusCode r)"
  with assms show "processRequestResults JSON_parse None (Some r) body_arg =
      ([Log LError ''Bad response code.''], Called (Val JNull) (ResponseObj r))"
    by (rule bad_status_path)
next
  assume "0 \<le> statusCode r" "statusCode r \<le> 999"
  then show "\<not> validResponseRegex_test (statusCode r) \<longleftrightarrow>
      \<not> (200 \<le> statusCode r \<and> statusCode r \<le> 299)"
    using three_digit_codes [of "statusCode r"] by simp
next
  assume "0 \<le> statusCode r" "statusCode r \<le> 999"
    "\<not> (200 \<le> statusCode r \<and> statusCode r \<le> 299)"
  then show "processRequestResults JSON_parse None (Some r) body_arg =
      ([Log LError ''Bad response code.''], Called (Val JNull) (ResponseObj r))"
    using assms by (rule three_digit_status_path)
qed

theorem C4_bad_status_witness:
  "\<not> isHibernating \<lparr>statusCode = 500, body = ''Internal Server Error''\<rparr>
   \<and> \<not> validResponseRegex_test 500
   \<and> processRequestResults example_JSON_parse None
         (Some \<lparr>statusCode = 500, body = ''Internal Server Error''\<rparr>) None =
       ([Log LError ''Bad response code.''],
        Called (Val JNull) (ResponseObj \<lparr>statusCode = 500, body = ''Internal Server Error''\<rparr>))"
proof -
  let ?r = "\<lparr>statusCode = 500, body = ''Internal Server Error''\<rparr>"
  have range: "0 \<le> statusCode ?r" "statusCode ?r \<le> 999"
    "\<not> (200 \<le> statusCode ?r \<and> statusCode ?r \<le> 299)"
    by simp_all
  from C4_bad_status [OF server_error_not_hibernating, of example_JSON_parse None] range
  have "\<not> validResponseRegex_test (statusCode ?r)"
    and "processRequestResults example_JSON_parse None (Some ?r) None =
      ([Log LError ''Bad response code.''], Called (Val JNull) (ResponseObj ?r))"
    by blast+
  with server_error_not_hibernating show ?thesis by simp
qed

text \<open>
  C5 as stated fails on the success path: with the response of the first end-to-end
  scenario (status 200, one record) the health check emits \<open>ONLINE\<close> and invokes the
  callback with \<open>null\<close> as its second argument, not \<open>undefined\<close>.
\<close>

theorem C5_counterexample:
  \<open>healthcheck
      (\<lambda>requestOptions.
         (None,
          Some \<lparr>statusCode = 200,
                 body = ''{"result":[{"number":"CHG001","sys_id":"abc","risk":"high"}]}''\<rparr>,
          Some ''{"result":[{"number":"CHG001","sys_id":"abc","risk":"high"}]}''))
      example_JSON_parse example_adapter True =
    ([Log LDebug ''URI: /api/now/table/change_request'',
      Request \<lparr>http_method = ''GET'', auth_user = ''admin'', auth_pass = ''secret'',
               baseUrl = ''https://dev00000.service-now.com'',
               uri = ''/api/now/table/change_request''\<rparr>,
      Log LDebug (CHR 0x0A # ''External system is available and healthy!''),
      Emit ''ONLINE'' (JObj [(''id'', JStr ''ServiceNow'')]),
      Log LInfo ''ServiceNow: Instance is available.'',
      Callback (Val (JArr [JObj [(''change_ticket_number'', JStr ''CHG001''),
                                 (''change_ticket_key'', JStr ''abc'')]] []))
               (Val JNull)],
     None)
   \<and> Val JNull \<noteq> Val JUndefined\<close>
proof -
  have conn: "adapter_connector example_adapter = example_connector"
    by (simp add: example_connector_def)
  show ?thesis
    unfolding healthcheck_def getRecord_def conn scenario1_get
    by (simp add: healthcheck_arrow_def emitOnline_def emitStatus_def example_adapter_eq)
qed

text \<open>
  C5, amended. Whenever the connector reports \<open>(result, error)\<close> to the health check:
  if \<open>error\<close> is truthy the adapter writes an error-severity log line that ends in its
  id, emits \<open>OFFLINE\<close> with \<open>{id}\<close> and, if a callback was given, invokes
  \<open>callback(result, error)\<close>; otherwise it logs at debug severity, emits \<open>ONLINE\<close> with
  \<open>{id}\<close> and, if a callback was given, invokes \<open>callback(result, error)\<close>, where
  \<open>error\<close> is \<open>null\<close>. In both cases this is the only event emitted, and what the
  connector reports as error is truthy unless it is \<open>null\<close>.
\<close>

theorem C5_healthcheck:
  assumes "get request JSON_parse (adapter_connector this) = (effs, Called result error)"
  shows "healthcheck request JSON_parse this callback =
           (effs
            @ (if truthy_arg error then
                 [Log LError ([CHR 0x0A] @ ''Error with external system with ID:'' @ [CHR 0x0A] @ id this),
                  Emit ''OFFLINE'' (JObj [(''id'', JStr (id this))]),
                  Log LWarn ''ServiceNow: Instance is unavailable.'']
               else
                 [Log LDebug ([CHR 0x0A] @ ''External system is available and healthy!''),
                  Emit ''ONLINE'' (JObj [(''id'', JStr (id this))]),
                  Log LInfo ''ServiceNow: Instance is available.''])
            @ (if callback then [Callback result error] else []),
            None)
       \<and> filter is_emit (fst (healthcheck request JSON_parse this callback)) =
           [Emit (if truthy_arg error then ''OFFLINE'' else ''ONLINE'')
              (JObj [(''id'', JStr (id this))])]
       \<and> (truthy_arg error \<longleftrightarrow> error \<noteq> Val JNull)"
proof (intro conjI)
  have hc: "healthcheck request JSON_parse this callback =
              (effs @ healthcheck_arrow this callback result error, None)"
    using assms by (simp add: healthcheck_def getRecord_def)
  then show "healthcheck request JSON_parse this callback =
           (effs
            @ (if truthy_arg error then
                 [Log LError ([CHR 0x0A] @ ''Error with external system with ID:'' @ [CHR 0x0A] @ id this),
                  Emit ''OFFLINE'' (JObj [(''id'', JStr (id this))]),
                  Log LWarn ''ServiceNow: Instance is unavailable.'']
               else
                 [Log LDebug ([CHR 0x0A] @ ''External system is available and healthy!''),
                  Emit ''ONLINE'' (JObj [(''id'', JStr (id this))]),
                  Log LInfo ''ServiceNow: Instance is available.''])
            @ (if callback then [Callback result error] else []),
            None)"
    by (simp add: healthcheck_arrow_def emitOffline_def emitOnline_def emitStatus_def)
  have "filter is_emit effs = []"
    using get_no_emit [of request JSON_parse "adapter_connector this"] assms by simp
  with hc show "filter is_emit (fst (healthcheck request JSON_parse this callback)) =
           [Emit (if truthy_arg error then ''OFFLINE'' else ''ONLINE'')
              (JObj [(''id'', JStr (id this))])]"
    by (simp add: healthcheck_arrow_emits)
  from assms show "truthy_arg error \<longleftrightarrow> error \<noteq> Val JNull"
    by (rule get_error_arg)
qed

theorem C5_healthcheck_witness:
  "healthcheck (\<lambda>requestOptions. (Some (Error ''connect ECONNREFUSED''), None, None))
      example_JSON_parse example_adapter True =
    ([Log LDebug ''URI: /api/now/table/change_request'',
      Request \<lparr>http_method = ''GET'', auth_user = ''admin'', auth_pass = ''secret'',
               baseUrl = ''https://dev00000.service-now.com'',
               uri = ''/api/now/table/change_request''\<rparr>,
      Log LError ''Error present.'',
      Log LError (CHR 0x0A # ''Error with external system with ID:'' @ CHR 0x0A # ''ServiceNow''),
      Emit ''OFFLINE'' (JObj [(''id'', JStr ''ServiceNow'')]),
      Log LWarn ''ServiceNow: Instance is unavailable.'',
      Callback (Val JNull) (ErrorObj (Error ''connect ECONNREFUSED''))],
     None)"
proof -
  let ?request = "\<lambda>requestOptions :: request_options.
                    (Some (Error ''connect ECONNREFUSED''), None :: response option, None :: string option)"
  have g: "get ?request example_JSON_parse (adapter_connector example_adapter) =
             ([Log LDebug ''URI: /api/now/table/change_request'',
               Request \<lparr>http_method = ''GET'', auth_user = ''admin'', auth_pass = ''secret'',
                        baseUrl = ''https://dev00000.service-now.com'',
                        uri = ''/api/now/table/change_request''\<rparr>,
               Log LError ''Error present.''],
              Called (Val JNull) (ErrorObj (Error ''connect ECONNREFUSED'')))"
    by (simp add: get_unfold example_adapter_eq example_connector_eq processRequestResults_def)
  from C5_healthcheck [OF g, of True] show ?thesis
    by (simp add: example_adapter_eq)
qed

text \<open>
  C6 as stated fails: with status 200 and the non-empty body \<open>x\<close>, which is not JSON, the
  callback is not invoked at all.
\<close>

theorem C6_counterexample:
  "\<not> isHibernating \<lparr>statusCode = 200, body = ''x''\<rparr>
   \<and> body \<lparr>statusCode = 200, body = ''x''\<rparr> \<noteq> []
   \<and> processRequestResults example_JSON_parse None (Some \<lparr>statusCode = 200, body = ''x''\<rparr>) None =
       ([], Threw SyntaxError)"
  by (simp add: processRequestResults_def valid_200 not_hibernating_short parse_malformed)

text \<open>
  C6, amended. No transport error, not hibernating, a 2xx status. If the body is empty
  the callback receives \<open>(null, null)\<close>. If the body is non-empty, parses, and the
  \<open>result\<close> of the parsed value is an array (as \<open>JSON.parse\<close> builds it, without named
  properties) whose elements are all objects, the callback receives \<open>(ys, null)\<close> where
  \<open>ys\<close> is the projected list: element by element the two renamed fields hold the
  input's \<open>number\<close> and \<open>sys_id\<close>, no deleted field is left, and every other field is as
  in the input.
\<close>

theorem C6_success_path:
  assumes "200 \<le> statusCode r" "statusCode r \<le> 299" "\<not> isHibernating r"
  shows "(body r = [] \<longrightarrow>
            processRequestResults JSON_parse None (Some r) body_arg =
              ([], Called (Val JNull) (Val JNull)))
       \<and> (body r \<noteq> [] \<longrightarrow> JSON_parse (body r) = Some jsonBody \<longrightarrow>
            get_field jsonBody ''result'' = Inr (JArr xs []) \<longrightarrow> (\<forall>x\<in>set xs. is_object x) \<longrightarrow>
            (\<exists>ys. processRequestResults JSON_parse None (Some r) body_arg =
                     ([], Called (Val (JArr ys [])) (Val JNull))
                 \<and> length ys = length xs
                 \<and> (\<forall>i<length xs.
                      get_field (ys ! i) ''change_ticket_number'' = get_field (xs ! i) ''number'' \<and>
                      get_field (ys ! i) ''change_ticket_key'' = get_field (xs ! i) ''sys_id'' \<and>
                      (\<forall>k\<in>set deleted_fields. \<not> has_own (ys ! i) k) \<and>
                      (\<forall>k. k \<notin> set deleted_fields \<longrightarrow> k \<noteq> ''change_ticket_number'' \<longrightarrow>
                           k \<noteq> ''change_ticket_key'' \<longrightarrow>
                           get_field (ys ! i) k = get_field (xs ! i) k))))"
proof (intro conjI impI)
  have valid: "validResponseRegex_test (statusCode r)"
    using assms(1,2) by (rule status_2xx_valid)
  {
    assume "body r = []"
    with assms(3) valid
    show "processRequestResults JSON_parse None (Some r) body_arg =
            ([], Called (Val JNull) (Val JNull))"
      by (rule empty_body_path)
  }
  {
    assume b: "body r \<noteq> []" and p: "JSON_parse (body r) = Some jsonBody"
      and g: "get_field jsonBody ''result'' = Inr (JArr xs [])"
      and objs: "\<forall>x\<in>set xs. is_object x"
    from for_each_project_objects [OF objs]
    obtain ys where ys: "for_each project_result xs = Inr ys" by blast
    have run: "processRequestResults JSON_parse None (Some r) body_arg =
                 ([], Called (Val (JArr ys [])) (Val JNull))"
      unfolding processRequestResults_success [of r JSON_parse jsonBody "JArr xs []" body_arg,
          OF assms(3) valid b p g]
      using ys by simp
    from for_each_Inr [OF ys] have len: "length ys = length xs"
      and el: "\<And>i. i < length xs \<Longrightarrow> project_result (xs ! i) = Inr (ys ! i)"
      by simp_all
    have props: "get_field (ys ! i) ''change_ticket_number'' = get_field (xs ! i) ''number'' \<and>
                 get_field (ys ! i) ''change_ticket_key'' = get_field (xs ! i) ''sys_id'' \<and>
                 (\<forall>k\<in>set deleted_fields. \<not> has_own (ys ! i) k) \<and>
                 (\<forall>k. k \<notin> set deleted_fields \<longrightarrow> k \<noteq> ''change_ticket_number'' \<longrightarrow>
                      k \<noteq> ''change_ticket_key'' \<longrightarrow>
                      get_field (ys ! i) k = get_field (xs ! i) k)"
      if i: "i < length xs" for i
      using project_result_renames [OF el [OF i]] project_result_deletes [OF el [OF i]]
        project_result_keeps [OF el [OF i]]
      by blast
    show "\<exists>ys. processRequestResults JSON_parse None (Some r) body_arg =
                     ([], Called (Val (JArr ys [])) (Val JNull))
                 \<and> length ys = length xs
                 \<and> (\<forall>i<length xs.
                      get_field (ys ! i) ''change_ticket_number'' = get_field (xs ! i) ''number'' \<and>
                      get_field (ys ! i) ''change_ticket_key'' = get_field (xs ! i) ''sys_id'' \<and>
                      (\<forall>k\<in>set deleted_fields. \<not> has_own (ys ! i) k) \<and>
                      (\<forall>k. k \<notin> set deleted_fields \<longrightarrow> k \<noteq> ''change_ticket_number'' \<longrightarrow>
                           k \<noteq> ''change_ticket_key'' \<longrightarrow>
                           get_field (ys ! i) k = get_field (xs ! i) k))"
      using run len props by blast
  }
qed

theorem C6_success_path_witness:
  \<open>processRequestResults example_JSON_parse None (Some \<lparr>statusCode = 204, body = ''''\<rparr>) None =
     ([], Called (Val JNull) (Val JNull))
   \<and> (\<exists>ys. processRequestResults example_JSON_parse None
         (Some \<lparr>statusCode = 200,
                 body = ''{"result":[{"number":"CHG001","sys_id":"abc","risk":"high"}]}''\<rparr>) None =
         ([], Called (Val (JArr ys [])) (Val JNull)) \<and> length ys = 1)\<close>
proof -
  let ?e = "\<lparr>statusCode = 204, body = ''''\<rparr>"
  let ?r = \<open>\<lparr>statusCode = 200,
             body = ''{"result":[{"number":"CHG001","sys_id":"abc","risk":"high"}]}''\<rparr>\<close>
  let ?x = "JObj [(''number'', JStr ''CHG001''), (''sys_id'', JStr ''abc''), (''risk'', JStr ''high'')]"
  have e: "200 \<le> statusCode ?e" "statusCode ?e \<le> 299" "\<not> isHibernating ?e"
    by (simp_all add: not_hibernating_short)
  have first: "processRequestResults example_JSON_parse None (Some ?e) None =
                 ([], Called (Val JNull) (Val JNull))"
    using C6_success_path [OF e, of example_JSON_parse None] by simp
  have h: "200 \<le> statusCode ?r" "statusCode ?r \<le> 299" "\<not> isHibernating ?r"
    using scenario1_not_hibernating by simp_all
  have b: "body ?r \<noteq> []" by simp
  have p: "example_JSON_parse (body ?r) = Some (JObj [(''result'', JArr [?x] [])])"
    using scenario1_parse by simp
  have g: "get_field (JObj [(''result'', JArr [?x] [])]) ''result'' = Inr (JArr [?x] [])"
    by simp
  have objs: "\<forall>x\<in>set [?x]. is_object x" by simp
  from C6_success_path [OF h, where JSON_parse = example_JSON_parse and body_arg = None
      and jsonBody = "JObj [(''result'', JArr [?x] [])]" and xs = "[?x]"]
    b p g objs
  have "\<exists>ys. processRequestResults example_JSON_parse None (Some ?r) None =
           ([], Called (Val (JArr ys [])) (Val JNull)) \<and> length ys = length [?x]"
    by blast
  with first show ?thesis by simp
qed

text \<open>
  C7. No transport error, not hibernating, a 2xx status and a non-empty body on which
  \<open>JSON.parse\<close> throws: the \<open>SyntaxError\<close> leaves \<open>processRequestResults\<close> and the callback
  is not invoked.
\<close>

theorem C7_malformed_json:
  assumes "200 \<le> statusCode r" "statusCode r \<le> 299" "\<not> isHibernating r" "body r \<noteq> []"
    "JSON_parse (body r) = None"
  shows "processRequestResults JSON_parse None (Some r) body_arg = ([], Threw SyntaxError)"
  using assms(3-) status_2xx_valid [OF assms(1,2)] by (simp add: processRequestResults_def)

theorem C7_malformed_json_witness:
  "processRequestResults example_JSON_parse None (Some \<lparr>statusCode = 200, body = ''x''\<rparr>) None =
     ([], Threw SyntaxError)"
proof -
  let ?r = "\<lparr>statusCode = 200, body = ''x''\<rparr>"
  have "200 \<le> statusCode ?r" "statusCode ?r \<le> 299" "\<not> isHibernating ?r" "body ?r \<noteq> []"
    "example_JSON_parse (body ?r) = None"
    by (simp_all add: not_hibernating_short parse_malformed)
  then show ?thesis by (rule C7_malformed_json)
qed

text \<open>
  C8 as stated fails at the empty query string: the argument is provided, the URI gets no
  \<open>?\<close>, and the call writes a line to the log.
\<close>

theorem C8_counterexample:
  "constructUri example_connector (Some '''') =
     (''/api/now/table/change_request'', example_connector,
      [Log LDebug ''URI: /api/now/table/change_request''])
   \<and> fst (constructUri example_connector (Some '''')) \<noteq> ''/api/now/table/change_request?''
   \<and> snd (snd (constructUri example_connector (Some ''''))) \<noteq> []"
  by (simp add: constructUri_unfold example_connector_eq)

text \<open>
  C8, amended. \<open>constructUri\<close> returns \<open>/api/now/table/<serviceNowTable>\<close>, followed by
  \<open>?\<close> and the query when a non-empty query is given. A second call with the same query
  returns the same, the connector is as before, and each call writes one debug line
  \<open>URI: <uri>\<close> to the log and does nothing else.
\<close>

theorem C8_constructUri:
  assumes "constructUri this query = (u, this', logs)"
  shows "u = ''/api/now/table/'' @ serviceNowTable (options this)
               @ (case query of None \<Rightarrow> [] | Some q \<Rightarrow> if q = [] then [] else ''?'' @ q)
       \<and> this' = this
       \<and> logs = [Log LDebug (''URI: '' @ u)]
       \<and> constructUri this' query = (u, this', logs)"
  using assms by (auto simp: constructUri_unfold)

theorem C8_constructUri_witness:
  "constructUri example_connector (Some ''sysparm_limit=1'') =
     (''/api/now/table/change_request?sysparm_limit=1'', example_connector,
      [Log LDebug ''URI: /api/now/table/change_request?sysparm_limit=1''])"
proof -
  obtain u this' logs where c: "constructUri example_connector (Some ''sysparm_limit=1'') = (u, this', logs)"
    by (cases "constructUri example_connector (Some ''sysparm_limit=1'')") blast
  from C8_constructUri [OF c] c show ?thesis by (simp add: example_connector_eq)
qed

text \<open>
  C9. On the successful GET path (as in C1), every element of the list given to the
  callback has the own properties \<open>change_ticket_number\<close> and \<open>change_ticket_key\<close>,
  whether or not the input element had \<open>number\<close> or \<open>sys_id\<close>; where the input element
  had no \<open>number\<close> (no \<open>sys_id\<close>), the property is there with the value \<open>undefined\<close>. And
  the callback is invoked whenever every element of \<open>result\<close> is an object.
\<close>

theorem C9_renamed_keys_always_present:
  assumes "200 \<le> statusCode r" "statusCode r \<le> 299" "\<not> isHibernating r" "body r \<noteq> []"
    "JSON_parse (body r) = Some jsonBody"
    "get_field jsonBody ''result'' = Inr (JArr xs ps)"
  shows "(\<forall>effs d e.
            processRequestResults JSON_parse None (Some r) body_arg = (effs, Called d e) \<longrightarrow>
            (\<exists>ys. d = Val (JArr ys ps) \<and> length ys = length xs \<and>
               (\<forall>i<length xs.
                  has_own (ys ! i) ''change_ticket_number'' \<and>
                  has_own (ys ! i) ''change_ticket_key'' \<and>
                  (\<not> has_own (xs ! i) ''number'' \<longrightarrow>
                     get_field (ys ! i) ''change_ticket_number'' = Inr JUndefined) \<and>
                  (\<not> has_own (xs ! i) ''sys_id'' \<longrightarrow>
                     get_field (ys ! i) ''change_ticket_key'' = Inr JUndefined))))
       \<and> ((\<forall>x\<in>set xs. is_object x) \<longrightarrow> map_of ps ''forEach'' = None \<longrightarrow>
            (\<exists>ys. processRequestResults JSON_parse None (Some r) body_arg =
                     ([], Called (Val (JArr ys ps)) (Val JNull))))"
proof -
  have valid: "validResponseRegex_test (statusCode r)"
    using assms(1,2) by (rule status_2xx_valid)
  show ?thesis
  proof (intro conjI allI impI)
    fix effs d e
    assume called: "processRequestResults JSON_parse None (Some r) body_arg = (effs, Called d e)"
    from success_called_list [OF assms(3) valid assms(4,5,6) called]
    obtain ys where d: "d = Val (JArr ys ps)" and len: "length ys = length xs"
      and el: "\<And>i. i < length xs \<Longrightarrow> project_result (xs ! i) = Inr (ys ! i)"
      by blast
    show "\<exists>ys. d = Val (JArr ys ps) \<and> length ys = length xs \<and>
               (\<forall>i<length xs.
                  has_own (ys ! i) ''change_ticket_number'' \<and>
                  has_own (ys ! i) ''change_ticket_key'' \<and>
                  (\<not> has_own (xs ! i) ''number'' \<longrightarrow>
                     get_field (ys ! i) ''change_ticket_number'' = Inr JUndefined) \<and>
                  (\<not> has_own (xs ! i) ''sys_id'' \<longrightarrow>
                     get_field (ys ! i) ''change_ticket_key'' = Inr JUndefined))"
    proof (intro exI conjI allI impI)
      show "d = Val (JArr ys ps)" by (rule d)
      show "length ys = length xs" by (rule len)
    next
      fix i assume "i < length xs"
      then show "has_own (ys ! i) ''change_ticket_number''"
        by (rule project_result_has_renamed(1) [OF el])
    next
      fix i assume "i < length xs"
      then show "has_own (ys ! i) ''change_ticket_key''"
        by (rule project_result_has_renamed(2) [OF el])
    next
      fix i assume i: "i < length xs" and absent: "\<not> has_own (xs ! i) ''number''"
      have "get_field (xs ! i) ''number'' = Inr JUndefined"
        using project_result_object [OF el [OF i]] absent by (rule absent_field_undefined)
      with project_result_renames(1) [OF el [OF i]]
      show "get_field (ys ! i) ''change_ticket_number'' = Inr JUndefined" by simp
    next
      fix i assume i: "i < length xs" and absent: "\<not> has_own (xs ! i) ''sys_id''"
      have "get_field (xs ! i) ''sys_id'' = Inr JUndefined"
        using project_result_object [OF el [OF i]] absent by (rule absent_field_undefined)
      with project_result_renames(2) [OF el [OF i]]
      show "get_field (ys ! i) ''change_ticket_key'' = Inr JUndefined" by simp
    qed
  next
    assume "\<forall>x\<in>set xs. is_object x" "map_of ps ''forEach'' = None"
    with assms(3) valid assms(4,5,6)
    show "\<exists>ys. processRequestResults JSON_parse None (Some r) body_arg =
                 ([], Called (Val (JArr ys ps)) (Val JNull))"
      by (rule success_objects_called)
  qed
qed

theorem C9_renamed_keys_always_present_witness:
  \<open>processRequestResults example_JSON_parse None
     (Some \<lparr>statusCode = 200, body = ''{"result":[{"risk":"high"}]}''\<rparr>) None =
   ([], Called (Val (JArr [JObj [(''change_ticket_number'', JUndefined),
                                 (''change_ticket_key'', JUndefined)]] [])) (Val JNull))
   \<and> \<not> has_own (JObj [(''risk'', JStr ''high'')]) ''number''
   \<and> has_own (JObj [(''change_ticket_number'', JUndefined),
                     (''change_ticket_key'', JUndefined)]) ''change_ticket_number''
   \<and> get_field (JObj [(''change_ticket_number'', JUndefined),
                       (''change_ticket_key'', JUndefined)]) ''change_ticket_number'' = Inr JUndefined\<close>
proof -
  let ?r = \<open>\<lparr>statusCode = 200, body = ''{"result":[{"risk":"high"}]}''\<rparr>\<close>
  let ?x = "JObj [(''risk'', JStr ''high'')]"
  let ?y = "JObj [(''change_ticket_number'', JUndefined), (''change_ticket_key'', JUndefined)]"
  have h1: "200 \<le> statusCode ?r" and h2: "statusCode ?r \<le> 299" and h4: "body ?r \<noteq> []"
    by simp_all
  have h5: "example_JSON_parse (body ?r) = Some (JObj [(''result'', JArr [?x] [])])"
    using scenario2_parse by simp
  have h6: "get_field (JObj [(''result'', JArr [?x] [])]) ''result'' = Inr (JArr [?x] [])"
    by simp
  have absent: "\<not> has_own ([?x] ! 0) ''number''" by simp
  from C9_renamed_keys_always_present [where JSON_parse = example_JSON_parse and r = ?r
      and body_arg = None, OF h1 h2 scenario2_not_hibernating h4 h5 h6] scenario2_run
  obtain ys where ys: "Val (JArr [?y] []) = Val (JArr ys [])"
    and el: "\<forall>i<length [?x]. has_own (ys ! i) ''change_ticket_number'' \<and>
               (\<not> has_own ([?x] ! i) ''number'' \<longrightarrow>
                  get_field (ys ! i) ''change_ticket_number'' = Inr JUndefined)"
    by blast
  from ys have "ys = [?y]" by simp
  then have y0: "ys ! 0 = ?y" by simp
  from el have "has_own (ys ! 0) ''change_ticket_number'' \<and>
               (\<not> has_own ([?x] ! 0) ''number'' \<longrightarrow>
                  get_field (ys ! 0) ''change_ticket_number'' = Inr JUndefined)"
    by simp
  with absent y0 have "has_own ?y ''change_ticket_number''"
    "get_field ?y ''change_ticket_number'' = Inr JUndefined"
    by simp_all
  with scenario2_run absent show ?thesis by simp
qed

text \<open>
  C10. No transport error, not hibernating, a 2xx status and a non-empty body that parses
  to a value whose \<open>result\<close> is not an array: a \<open>TypeError\<close> leaves
  \<open>processRequestResults\<close> and the callback is not invoked.
\<close>

theorem C10_no_result_array:
  assumes "200 \<le> statusCode r" "statusCode r \<le> 299" "\<not> isHibernating r" "body r \<noteq> []"
    "JSON_parse (body r) = Some jsonBody"
    "\<forall>xs ps. get_field jsonBody ''result'' \<noteq> Inr (JArr xs ps)"
  shows "processRequestResults JSON_parse None (Some r) body_arg = ([], Threw TypeError)"
proof (cases "get_field jsonBody ''result''")
  case (Inl e)
  then have "e = TypeError" by (rule get_field_error)
  with Inl assms(3-5) status_2xx_valid [OF assms(1,2)] show ?thesis
    by (simp add: processRequestResults_def)
next
  case (Inr v)
  with assms(6) have "\<forall>xs ps. v \<noteq> JArr xs ps" by simp
  then have "results_forEach v = Inl TypeError" by (rule results_forEach_not_array)
  with Inr assms(3-5) status_2xx_valid [OF assms(1,2)] show ?thesis
    by (simp add: processRequestResults_def)
qed

theorem C10_no_result_array_witness:
  "processRequestResults example_JSON_parse None (Some \<lparr>statusCode = 200, body = ''{}''\<rparr>) None =
     ([], Threw TypeError)"
proof -
  let ?r = "\<lparr>statusCode = 200, body = ''{}''\<rparr>"
  have "200 \<le> statusCode ?r" "statusCode ?r \<le> 299" "\<not> isHibernating ?r" "body ?r \<noteq> []"
    "example_JSON_parse (body ?r) = Some (JObj [])"
    "\<forall>xs ps. get_field (JObj []) ''result'' \<noteq> Inr (JArr xs ps)"
    by (simp_all add: not_hibernating_short parse_empty_object)
  then show ?thesis by (rule C10_no_result_array)
qed

end
